theory Spec2Isabelle
  imports Main "HOL-Library.AList"
begin

section \<open>Data model of webhooks.ts\<close>

text \<open>
  The embedding follows \<^verbatim>\<open>src/webhooks.ts\<close>. An \<^verbatim>\<open>async\<close> function becomes a function
  from the state of the world to a result and the new state; a rejected promise (a
  \<^verbatim>\<open>throw\<close>) is the left summand of the result. Calls into other modules of the
  package and into \<^verbatim>\<open>crypto\<close>, \<^verbatim>\<open>URL\<close>, \<^verbatim>\<open>JSON\<close> and the clock, and the answers of the hub,
  are fields of the record \<open>manager\<close>, so every theorem holds for whatever they compute.
  \<^verbatim>\<open>got.post\<close> is modelled as got 11 behaves when called the way webhooks.ts calls it.
\<close>

text \<open>A JavaScript \<^verbatim>\<open>Date\<close>: milliseconds since the epoch, or the invalid date (time value NaN).\<close>

datatype Date = Date int | InvalidDate

text \<open>
  The fields of \<^verbatim>\<open>WebhookPersistenceObject\<close> that webhooks.ts reads or writes
  (the type itself is declared in persistence.ts).
\<close>

record WebhookPersistenceObject =
  id_w :: string
  href :: string
  secret :: string
  leaseSeconds :: int
  subscribed :: bool
  subscriptionStart :: "Date option"
  subscriptionEnd :: "Date option"

record HubParams =
  hub_callback :: string
  hub_mode :: string
  hub_topic :: string
  hub_lease_seconds :: int
  hub_secret :: string

text \<open>One \<^verbatim>\<open>got.post\<close> call: the three headers and the body (the JSON of the hub parameters).\<close>

record hub_request =
  Authorization :: string
  Client_ID :: string
  Content_Type :: string
  body_hub :: HubParams

record got_response =
  statusCode :: nat
  body_resp :: string

datatype error =
    Error string
  | HTTPError got_response
  | SyntaxError string
  | TypeError string
  | URIError string
  | SubscriptionDeniedError WebhookPersistenceObject string
  | OtherError string string

datatype event =
    ErrorEvent error "string option"
  | SubscribedEvent string
  | UnsubscribedEvent string

text \<open>
  What the manager does to its collaborators, in the order it does it; \<open>hubPosts\<close>,
  \<open>persistInserts\<close>, \<open>emitted\<close> and \<open>schedulerRemovals\<close> below read one kind of effect
  off the trace.
\<close>

datatype effect =
    HubPost hub_request
  | PersistWebhook WebhookPersistenceObject
  | SaveWebhook WebhookPersistenceObject
  | DeleteWebhook string
  | Emit event
  | AddToScheduler WebhookPersistenceObject
  | RemoveFromScheduler string
  | LogError string

record world =
  store :: "(string \<times> WebhookPersistenceObject) list"
  trace :: "effect list"
  unhandled :: "error list"
  clockReads :: nat
  errorListener :: bool

datatype json = JNull | JBool bool | JNum int | JStr string
  | JArr "json list" | JObj "(string \<times> json) list"

record url =
  pathname :: string
  search :: string
  searchParams :: "(string \<times> string) list"
  href_url :: string

text \<open>
  \<open>'o\<close> is the type of the per-subscription options (\<^verbatim>\<open>WebhookOptions\<close>, declared in
  config.ts); webhooks.ts only hands them on to \<^verbatim>\<open>createWebhookPersistenceObject\<close>.
  A topic type (\<^verbatim>\<open>WebhookType\<close>, a numeric enum) is its number.
\<close>

record 'o manager =
  client_id :: string
  hostname :: string
  renewalScheduler :: bool
  getOAuthToken :: "string option \<Rightarrow> error + string"
  refreshOAuthToken :: "string \<Rightarrow> error + string"
  hub :: "nat \<Rightarrow> hub_request \<Rightarrow> error + got_response"
  createErrorFromResponse :: "got_response \<Rightarrow> string \<Rightarrow> error option"
  getCallbackUrl :: "WebhookPersistenceObject \<Rightarrow> string"
  createWebhookPersistenceObject ::
    "nat \<Rightarrow> (string \<times> string) list \<Rightarrow> 'o \<Rightarrow> WebhookPersistenceObject"
  getIdFromTypeAndParams :: "nat \<Rightarrow> string \<Rightarrow> string"
  createHmac_sha256_hex :: "string \<Rightarrow> string \<Rightarrow> string"
  JSON_parse :: "string \<Rightarrow> json option"
  URL_new :: "string \<Rightarrow> string option \<Rightarrow> url option"
  decodeURIComponent :: "string \<Rightarrow> string option"
  clock :: "nat \<Rightarrow> int"

text \<open>
  \<open>hub m n r\<close> is how the \<open>n\<close>-th request of the run (counted from 0) ends when it sends
  \<open>r\<close>: with the hub's response, or with the error of the transport (no connection, the
  timeout). \<open>clock m k\<close> is the \<open>k\<close>-th reading of the system clock. A \<open>None\<close> of
  \<open>JSON_parse\<close>, \<open>URL_new\<close> or \<open>decodeURIComponent\<close> is the exception the JavaScript
  function throws. \<open>errorListener w\<close> tells whether the application has registered a
  listener for the \<^verbatim>\<open>'error'\<close> event of the manager.
\<close>

definition hubPosts :: "world \<Rightarrow> hub_request list" where
  "hubPosts w = concat (map (\<lambda>e. case e of HubPost r \<Rightarrow> [r] | _ \<Rightarrow> []) (trace w))"

definition persistInserts :: "world \<Rightarrow> WebhookPersistenceObject list" where
  "persistInserts w =
     concat (map (\<lambda>e. case e of PersistWebhook x \<Rightarrow> [x] | _ \<Rightarrow> []) (trace w))"

definition emitted :: "world \<Rightarrow> event list" where
  "emitted w = concat (map (\<lambda>e. case e of Emit x \<Rightarrow> [x] | _ \<Rightarrow> []) (trace w))"

definition schedulerRemovals :: "world \<Rightarrow> string list" where
  "schedulerRemovals w =
     concat (map (\<lambda>e. case e of RemoveFromScheduler x \<Rightarrow> [x] | _ \<Rightarrow> []) (trace w))"

definition add_effect :: "effect \<Rightarrow> world \<Rightarrow> world" where
  "add_effect e w = w\<lparr>trace := trace w @ [e]\<rparr>"

section \<open>The hub request\<close>

definition hubRequest :: "'o manager \<Rightarrow> string \<Rightarrow> HubParams \<Rightarrow> hub_request" where
  "hubRequest m token hubParams =
     \<lparr>Authorization = ''Bearer '' @ token, Client_ID = client_id m,
      Content_Type = ''application/json'', body_hub = hubParams\<rparr>"

text \<open>
  \<^verbatim>\<open>got.post\<close> as webhooks.ts calls it: got 11 (package.json asks for \<^verbatim>\<open>^11.1.4\<close>), with the
  options \<^verbatim>\<open>headers\<close>, \<^verbatim>\<open>timeout\<close>, \<^verbatim>\<open>retry\<close> and \<^verbatim>\<open>body\<close> only, so \<^verbatim>\<open>throwHttpErrors\<close> keeps its
  default and redirects are followed. The promise is fulfilled with the response when its
  status is 200 to 299 or 304, and rejected with an \<^verbatim>\<open>HTTPError\<close> holding the response
  otherwise.
\<close>

definition isResponseOk :: "got_response \<Rightarrow> bool" where
  "isResponseOk resp =
     ((200 \<le> statusCode resp \<and> statusCode resp \<le> 299) \<or> statusCode resp = 304)"

definition got_post :: "'o manager \<Rightarrow> nat \<Rightarrow> hub_request \<Rightarrow> error + got_response" where
  "got_post m n r =
     (case hub m n r of
        Inl e \<Rightarrow> Inl e
      | Inr resp \<Rightarrow> if isResponseOk resp then Inr resp else Inl (HTTPError resp))"

text \<open>\<^verbatim>\<open>await got.post(manager.config.hubUrl, {...})\<close>\<close>

definition post :: "'o manager \<Rightarrow> hub_request \<Rightarrow> world \<Rightarrow> (error + got_response) \<times> world" where
  "post m r w = (got_post m (length (hubPosts w)) r, add_effect (HubPost r) w)"

text \<open>\<^verbatim>\<open>resp.statusCode && Math.floor(resp.statusCode / 100) === 2\<close>\<close>

definition is2xx :: "got_response \<Rightarrow> bool" where
  "is2xx resp = (statusCode resp \<noteq> 0 \<and> statusCode resp div 100 = 2)"

text \<open>
  \<^verbatim>\<open>createErrorFromResponse(resp, resp.body) || new Error('Unknown error when doing hub request: ' + resp.body)\<close>
\<close>

definition hubError :: "'o manager \<Rightarrow> got_response \<Rightarrow> error" where
  "hubError m resp =
     (case createErrorFromResponse m resp (body_resp resp) of
        Some e \<Rightarrow> e
      | None \<Rightarrow> Error (''Unknown error when doing hub request: '' @ body_resp resp))"

definition doHubRequest ::
  "'o manager \<Rightarrow> HubParams \<Rightarrow> string \<Rightarrow> world \<Rightarrow> (error + unit) \<times> world" where
  "doHubRequest m hubParams oAuthToken w =
     (case post m (hubRequest m oAuthToken hubParams) w of
        (Inl e, w1) \<Rightarrow> (Inl e, w1)
      | (Inr resp, w1) \<Rightarrow>
          if is2xx resp then (Inr (), w1)
          else if statusCode resp = 401 then
            (case refreshOAuthToken m oAuthToken of
               Inl e \<Rightarrow> (Inl e, w1)
             | Inr token' \<Rightarrow>
                 (case post m (hubRequest m token' hubParams) w1 of
                    (Inl e, w2) \<Rightarrow> (Inl e, w2)
                  | (Inr resp', w2) \<Rightarrow>
                      if is2xx resp' then (Inr (), w2)
                      else (Inl (hubError m resp'), w2)))
          else (Inl (hubError m resp), w1))"

text \<open>The \<^verbatim>\<open>hubParams\<close> object that \<^verbatim>\<open>changeSub\<close> builds.\<close>

definition hubParamsOf :: "'o manager \<Rightarrow> WebhookPersistenceObject \<Rightarrow> bool \<Rightarrow> HubParams" where
  "hubParamsOf m webhook subscribe =
     \<lparr>hub_callback = getCallbackUrl m webhook,
      hub_mode = (if subscribe then ''subscribe'' else ''unsubscribe''),
      hub_topic = href webhook,
      hub_lease_seconds = leaseSeconds webhook,
      hub_secret = secret webhook\<rparr>"

definition changeSub ::
  "'o manager \<Rightarrow> WebhookPersistenceObject \<Rightarrow> bool \<Rightarrow> string option \<Rightarrow> world
    \<Rightarrow> (error + unit) \<times> world" where
  "changeSub m webhook subscribe userId w =
     (case getOAuthToken m userId of
        Inl e \<Rightarrow> (Inl e, w)
      | Inr token \<Rightarrow> doHubRequest m (hubParamsOf m webhook subscribe) token w)"

section \<open>The persistence manager\<close>

text \<open>
  persistence.ts is not among the sources; the manager receives a persistence manager
  through its configuration. The one modelled here is the key-value store of the spec's
  section 4.1, keyed by the record's id and kept in the field \<open>store\<close> in insertion order.
  Each write is also noted in the trace.
\<close>

text \<open>Modelled from the spec: \<open>getById(id) -> record|absent\<close>, the lookup of the persistence manager.\<close>

definition getWebhookById :: "world \<Rightarrow> string \<Rightarrow> WebhookPersistenceObject option" where
  "getWebhookById w webhookId = map_of (store w) webhookId"

text \<open>Modelled from the spec: \<open>persist(record) -> ok\<close>, the first insert of a record under its id.\<close>

definition persistWebhook :: "WebhookPersistenceObject \<Rightarrow> world \<Rightarrow> world" where
  "persistWebhook webhook w =
     add_effect (PersistWebhook webhook)
       (w\<lparr>store := AList.update (id_w webhook) webhook (store w)\<rparr>)"

text \<open>Modelled from the spec: \<open>save(record) -> ok\<close>, which replaces the record stored under its id.\<close>

definition saveWebhook :: "WebhookPersistenceObject \<Rightarrow> world \<Rightarrow> world" where
  "saveWebhook webhook w =
     add_effect (SaveWebhook webhook)
       (w\<lparr>store := AList.update (id_w webhook) webhook (store w)\<rparr>)"

text \<open>Modelled from the spec: \<open>delete(id) -> ok\<close>, which removes the record stored under the id.\<close>

definition deleteWebhook :: "string \<Rightarrow> world \<Rightarrow> world" where
  "deleteWebhook webhookId w =
     add_effect (DeleteWebhook webhookId) (w\<lparr>store := AList.delete webhookId (store w)\<rparr>)"

text \<open>Modelled from the spec: \<open>listAll() -> sequence of record\<close>.\<close>

definition getAllWebhooks :: "world \<Rightarrow> WebhookPersistenceObject list" where
  "getAllWebhooks w = map snd (store w)"

section \<open>Operations the caller invokes\<close>

definition subscribeOrGetSubscription ::
  "'o manager \<Rightarrow> nat \<Rightarrow> (string \<times> string) list \<Rightarrow> 'o \<Rightarrow> string option \<Rightarrow> world
    \<Rightarrow> (error + string) \<times> world" where
  "subscribeOrGetSubscription m type params config associatedUser w =
     (let webhook = createWebhookPersistenceObject m type params config
      in case getWebhookById w (id_w webhook) of
           Some oldWebhook \<Rightarrow> (Inr (id_w oldWebhook), w)
         | None \<Rightarrow>
             (case changeSub m webhook True associatedUser (persistWebhook webhook w) of
                (Inl e, w') \<Rightarrow> (Inl e, w')
              | (Inr _, w') \<Rightarrow> (Inr (id_w webhook), w')))"

definition unsubscribePersistenceObject ::
  "'o manager \<Rightarrow> WebhookPersistenceObject \<Rightarrow> world \<Rightarrow> (error + unit) \<times> world" where
  "unsubscribePersistenceObject m webhook w =
     (case changeSub m webhook False None w of
        (Inl e, w') \<Rightarrow> (Inl e, w')
      | (Inr _, w') \<Rightarrow>
          (Inr (), if renewalScheduler m
                   then add_effect (RemoveFromScheduler (id_w webhook)) w' else w'))"

text \<open>
  \<^verbatim>\<open>unsubscribe\<close> calls \<^verbatim>\<open>this.unsubscribePersistenceObject(webhook)\<close> without
  \<^verbatim>\<open>await\<close>: the promise it returns is fulfilled whatever becomes of the call. The model
  runs the call to its end and, when it fails, puts the error among the rejections
  nobody handles.
\<close>

definition notFound :: "string \<Rightarrow> error" where
  "notFound webhookId = Error (''Webhook with id '' @ webhookId @ '' could not be found!'')"

definition unsubscribe :: "'o manager \<Rightarrow> string \<Rightarrow> world \<Rightarrow> (error + unit) \<times> world" where
  "unsubscribe m webhookId w =
     (case getWebhookById w webhookId of
        Some webhook \<Rightarrow>
          (case unsubscribePersistenceObject m webhook w of
             (Inl e, w') \<Rightarrow> (Inr (), w'\<lparr>unhandled := unhandled w' @ [e]\<rparr>)
           | (Inr _, w') \<Rightarrow> (Inr (), w'))
      | None \<Rightarrow> (Inl (notFound webhookId), w))"

definition resubscribe :: "'o manager \<Rightarrow> string \<Rightarrow> world \<Rightarrow> (error + unit) \<times> world" where
  "resubscribe m webhookId w =
     (case getWebhookById w webhookId of
        Some webhook \<Rightarrow> changeSub m webhook True None w
      | None \<Rightarrow> (Inl (notFound webhookId), w))"

section \<open>Bulk unsubscription\<close>

text \<open>
  The listener of \<^verbatim>\<open>unsubFromAll\<close>: each \<^verbatim>\<open>'unsubscribed'\<close> event removes its id from
  the ids still awaited, and the promise is resolved at the first event that leaves none.
  \<open>resolved ids evs\<close> tells whether the events \<open>evs\<close> (the ids of the \<^verbatim>\<open>'unsubscribed'\<close>
  events emitted from the registration of the listener on) resolve the promise.
\<close>

fun resolved :: "string list \<Rightarrow> string list \<Rightarrow> bool" where
  "resolved webhookIds [] = False"
| "resolved webhookIds (i # evs) =
     (let webhookIds' = filter (\<lambda>x. x \<noteq> i) webhookIds
      in if length webhookIds' = 0 then True else resolved webhookIds' evs)"

text \<open>
  One turn of the loop of \<^verbatim>\<open>unsubFromAll\<close>: the call with its \<^verbatim>\<open>catch\<close>, which logs.
\<close>

definition unsubOne :: "'o manager \<Rightarrow> WebhookPersistenceObject \<Rightarrow> world \<Rightarrow> world" where
  "unsubOne m webhook w =
     (case unsubscribePersistenceObject m webhook w of
        (Inl e, w') \<Rightarrow> add_effect (LogError (''Error while unsubscribing from: '' @ id_w webhook)) w'
      | (Inr _, w') \<Rightarrow> w')"

text \<open>
  \<open>unsubFromAll m evs w\<close> is \<open>None\<close> when the returned promise never settles, given that
  \<open>evs\<close> are all the \<^verbatim>\<open>'unsubscribed'\<close> events there will be. The calls of the loop,
  which JavaScript interleaves, run here one after the other.
\<close>

definition unsubFromAll :: "'o manager \<Rightarrow> string list \<Rightarrow> world \<Rightarrow> world option" where
  "unsubFromAll m evs w =
     (let webhooks = getAllWebhooks w;
          webhookIds = map id_w webhooks;
          w' = fold (unsubOne m) webhooks w
      in if resolved webhookIds evs then Some w' else None)"

section \<open>The callback endpoints\<close>

record response =
  status :: nat
  contentType :: "string option"
  body_res :: "string option"
  ended :: bool

definition res0 :: response where
  "res0 = \<lparr>status = 200, contentType = None, body_res = None, ended = False\<rparr>"

text \<open>\<^verbatim>\<open>res.end(data)\<close>; a response that has ended stays as it is.\<close>

definition end_res :: "string option \<Rightarrow> response \<Rightarrow> response" where
  "end_res data res = (if ended res then res else res\<lparr>body_res := data, ended := True\<rparr>)"

text \<open>
  \<^verbatim>\<open>res.sendStatus(code)\<close> of express: the status, and its message as a plain text body
  (\<^verbatim>\<open>res.type('txt')\<close>). webhooks.ts sends 400 and 404 only.
\<close>

definition statusMessage :: "nat \<Rightarrow> string" where
  "statusMessage code =
     (if code = 400 then ''Bad Request'' else if code = 404 then ''Not Found'' else [])"

definition sendStatus :: "nat \<Rightarrow> response \<Rightarrow> response" where
  "sendStatus code res =
     end_res (Some (statusMessage code)) (res\<lparr>status := code, contentType := Some ''text/plain; charset=utf-8''\<rparr>)"

text \<open>A value used as a condition: \<^verbatim>\<open>null\<close>, \<^verbatim>\<open>undefined\<close> and the empty string are false.\<close>

definition truthy :: "string option \<Rightarrow> bool" where
  "truthy v = (case v of None \<Rightarrow> False | Some s \<Rightarrow> s \<noteq> [])"

definition searchParams_get :: "url \<Rightarrow> string \<Rightarrow> string option" where
  "searchParams_get u name = map_of (searchParams u) name"

text \<open>
  \<^verbatim>\<open>parseInt(s)\<close> without a radix: leading white space, a sign, a \<^verbatim>\<open>0x\<close> prefix for base
  16, then the longest run of digits; \<open>None\<close> is NaN. The result is the exact integer,
  where JavaScript rounds to a double above \<open>2^53\<close>: the only use of the result, in
  \<open>confirmSubscription\<close>, multiplies it by 1000, which takes every such value out of the
  range of a date. White space is the ASCII one.
\<close>

definition isWhiteSpace :: "char \<Rightarrow> bool" where
  "isWhiteSpace c = (c \<in> set [CHR '' '', CHR 0x09, CHR 0x0A, CHR 0x0B, CHR 0x0C, CHR 0x0D])"

definition digitValue :: "char \<Rightarrow> nat" where
  "digitValue c =
     (let n = (of_char c :: nat)
      in if 48 \<le> n \<and> n \<le> 57 then n - 48
         else if 97 \<le> n \<and> n \<le> 122 then n - 87
         else if 65 \<le> n \<and> n \<le> 90 then n - 55
         else 36)"

definition parseInt :: "string \<Rightarrow> int option" where
  "parseInt s =
     (let s1 = dropWhile isWhiteSpace s;
          neg = (case s1 of [] \<Rightarrow> False | c # _ \<Rightarrow> c = CHR ''-'');
          s2 = (case s1 of [] \<Rightarrow> s1
                | c # r \<Rightarrow> if c = CHR ''-'' \<or> c = CHR ''+'' then r else s1);
          hex = (take 2 s2 = ''0x'' \<or> take 2 s2 = ''0X'');
          R = (if hex then 16 else 10);
          s3 = (if hex then drop 2 s2 else s2);
          ds = takeWhile (\<lambda>c. digitValue c < R) s3
      in if ds = [] then None
         else Some ((if neg then - 1 else 1) * int (foldl (\<lambda>a c. a * R + digitValue c) 0 ds)))"

text \<open>
  \<^verbatim>\<open>new Date(t)\<close> for a number \<open>t\<close>: a time value beyond 8.64e15 milliseconds on either
  side of the epoch gives the invalid date.
\<close>

definition newDate :: "int \<Rightarrow> Date" where
  "newDate t =
     (if - 8640000000000000 \<le> t \<and> t \<le> 8640000000000000 then Date t else InvalidDate)"

text \<open>
  \<^verbatim>\<open>new Date()\<close> and \<^verbatim>\<open>Date.now()\<close>: each reads the clock once more. The sums below are
  those of integers. JavaScript adds doubles, which are exact up to \<open>2^53\<close>; as long as the
  clock reads a time between 1970 and the year 13600 (0 to 3.67e14 milliseconds), every sum
  that a double would round lies beyond 8.64e15 and is the invalid date either way.
\<close>

definition readClock :: "'o manager \<Rightarrow> world \<Rightarrow> int \<times> world" where
  "readClock m w = (clock m (clockReads w), w\<lparr>clockReads := Suc (clockReads w)\<rparr>)"

text \<open>
  The confirmation branch of the GET handler (the \<^verbatim>\<open>else\<close> of the test for
  \<^verbatim>\<open>'unsubscribe'\<close>).
\<close>

definition confirmSubscription ::
  "'o manager \<Rightarrow> url \<Rightarrow> string \<Rightarrow> WebhookPersistenceObject \<Rightarrow> response \<Rightarrow> world
    \<Rightarrow> response \<times> world" where
  "confirmSubscription m originalUrl webhookId webhook res w =
     (let (start, w1) = readClock m w;
          (endDate, w2) =
            (if truthy (searchParams_get originalUrl ''hub.lease_seconds'')
             then (case parseInt (the (searchParams_get originalUrl ''hub.lease_seconds'')) of
                     None \<Rightarrow> (InvalidDate, w1)
                   | Some lease \<Rightarrow> (newDate (start + lease * 1000), w1))
             else (let (now, w') = readClock m w1
                   in (newDate (now + leaseSeconds webhook * 1000), w')));
          webhook' = webhook\<lparr>subscriptionStart := Some (Date start),
                             subscriptionEnd := Some endDate, subscribed := True\<rparr>;
          res' = end_res (searchParams_get originalUrl ''hub.challenge'')
                   (res\<lparr>contentType := Some ''text/plain'', status := 200\<rparr>);
          w3 = add_effect (Emit (SubscribedEvent webhookId)) (saveWebhook webhook' w2)
      in (res', if renewalScheduler m then add_effect (AddToScheduler webhook') w3 else w3))"

text \<open>
  The handler of \<^verbatim>\<open>app.get(endpoint_path, ...)\<close> for the topic type \<open>type\<close>. The trace notes
  every call of \<^verbatim>\<open>this.emit\<close>. An \<^verbatim>\<open>'error'\<close> event emitted while no listener is registered
  for it is thrown by the emitter, so the handler is then rejected with the error, after
  it has ended the response and deleted the record.
\<close>

definition handleGet ::
  "'o manager \<Rightarrow> nat \<Rightarrow> string \<Rightarrow> response \<Rightarrow> world \<Rightarrow> (error + unit) \<times> response \<times> world" where
  "handleGet m type req_originalUrl res w =
     (case URL_new m req_originalUrl (Some (hostname m)) of
        None \<Rightarrow> (Inl (TypeError ''Invalid URL''), res, w)
      | Some originalUrl \<Rightarrow>
          if \<not> truthy (searchParams_get originalUrl ''hub.topic'')
          then (Inl (Error ''hub.topic not found in search params.''), res, w)
          else
            (case decodeURIComponent m (the (searchParams_get originalUrl ''hub.topic'')) of
               None \<Rightarrow> (Inl (URIError ''URI malformed''), res, w)
             | Some topic \<Rightarrow>
                 (case URL_new m topic None of
                    None \<Rightarrow> (Inl (TypeError ''Invalid URL''), res, w)
                  | Some topicURL \<Rightarrow>
                      (let webhookId = getIdFromTypeAndParams m type (search topicURL)
                       in case getWebhookById w webhookId of
                            Some webhook \<Rightarrow>
                              if \<not> truthy (searchParams_get originalUrl ''hub.mode'')
                                 \<or> searchParams_get originalUrl ''hub.mode'' = Some ''denied''
                              then
                                (let reason = searchParams_get originalUrl ''hub.reason'';
                                     w1 = add_effect (LogError (''Subscription denied. reason: ''
                                            @ (case reason of None \<Rightarrow> ''null'' | Some r \<Rightarrow> r))) w;
                                     w2 = deleteWebhook webhookId w1;
                                     e = SubscriptionDeniedError webhook
                                           (if truthy reason then the reason
                                            else ''No reason given'')
                                 in (if errorListener w then Inr () else Inl e,
                                     end_res None res,
                                     add_effect (Emit (ErrorEvent e None)) w2))
                              else if searchParams_get originalUrl ''hub.mode'' = Some ''unsubscribe''
                              then
                                (Inr (),
                                 end_res (searchParams_get originalUrl ''hub.challenge'')
                                   (res\<lparr>contentType := Some ''text/plain'', status := 200\<rparr>),
                                 add_effect (Emit (UnsubscribedEvent (id_w webhook)))
                                   (deleteWebhook (id_w webhook) w))
                              else
                                (let (res', w') =
                                       confirmSubscription m originalUrl webhookId webhook res w
                                 in (Inr (), res', w'))
                          | None \<Rightarrow>
                              (Inr (), end_res None (res\<lparr>status := 404\<rparr>),
                               add_effect (LogError (''Got GET for unknown webhook URL: ''
                                 @ href_url topicURL)) w)))))"

section \<open>The verification middleware\<close>

record request =
  method_req :: string
  header :: "string \<Rightarrow> string option"
  originalUrl :: string
  headers_host :: "string option"
  rawBody :: string
  body_req :: "json option"

text \<open>
  \<open>header req\<close> is \<^verbatim>\<open>req.header\<close>, \<open>rawBody req\<close> the bytes that \<^verbatim>\<open>concat\<close> collects from
  the request stream, \<open>body_req req\<close> the field \<^verbatim>\<open>req.body\<close>.
\<close>

datatype verdict = Next request | Responded | Thrown error

text \<open>\<^verbatim>\<open>s.includes(t)\<close>\<close>

fun includes_str :: "string \<Rightarrow> string \<Rightarrow> bool" where
  "includes_str [] t = (t = [])"
| "includes_str (c # cs) t = (take (length t) (c # cs) = t \<or> includes_str cs t)"

text \<open>\<^verbatim>\<open>s.split(c)\<close> for a separator of one character; the result is never empty.\<close>

fun split_str :: "char \<Rightarrow> string \<Rightarrow> string list" where
  "split_str c [] = [[]]"
| "split_str c (x # xs) =
     (if x = c then [] # split_str c xs
      else (case split_str c xs of [] \<Rightarrow> [[x]] | y # ys \<Rightarrow> (x # y) # ys))"

text \<open>\<^verbatim>\<open>xs[i]\<close>, which is \<^verbatim>\<open>undefined\<close> out of range.\<close>

definition at_index :: "'a list \<Rightarrow> nat \<Rightarrow> 'a option" where
  "at_index xs i = (if i < length xs then Some (xs ! i) else None)"

text \<open>
  The first statement of the callback given to \<^verbatim>\<open>concat\<close>: a body announced as JSON is
  parsed, and \<^verbatim>\<open>JSON.parse\<close> throws on a body that is not JSON.
\<close>

definition parseBody :: "'o manager \<Rightarrow> request \<Rightarrow> error + request" where
  "parseBody m req =
     (if truthy (header req ''content-type'')
         \<and> includes_str (the (header req ''content-type'')) ''application/json''
      then (case JSON_parse m (rawBody req) of
              None \<Rightarrow> Inl (SyntaxError ''Unexpected token in JSON'')
            | Some j \<Rightarrow> Inr (req\<lparr>body_req := Some j\<rparr>))
      else Inr req)"

text \<open>\<^verbatim>\<open>lastPath + callback_url.search\<close>, the id the record is looked up under.\<close>

definition lookupKey :: "url \<Rightarrow> string" where
  "lookupKey callback_url = last (split_str CHR ''/'' (pathname callback_url)) @ search callback_url"

text \<open>\<^verbatim>\<open>digest === req.header("X-Hub-Signature").split('=')[1]\<close>\<close>

definition signatureMatches :: "string \<Rightarrow> string \<Rightarrow> bool" where
  "signatureMatches digest signature = (at_index (split_str CHR ''='' signature) 1 = Some digest)"

definition verificationMiddleware ::
  "'o manager \<Rightarrow> request \<Rightarrow> response \<Rightarrow> world \<Rightarrow> verdict \<times> response \<times> world" where
  "verificationMiddleware m req0 res w =
     (case parseBody m req0 of
        Inl e \<Rightarrow> (Thrown e, res, w)
      | Inr req \<Rightarrow>
          if method_req req = ''POST'' then
            if truthy (header req ''X-Hub-Signature'') then
              (case URL_new m (originalUrl req)
                      (Some (''https://'' @ (case headers_host req of
                                               None \<Rightarrow> ''undefined'' | Some h \<Rightarrow> h))) of
                 None \<Rightarrow> (Thrown (TypeError ''Invalid URL''), res, w)
               | Some callback_url \<Rightarrow>
                   (case getWebhookById w (lookupKey callback_url) of
                      None \<Rightarrow>
                        (Responded, end_res None (sendStatus 404 res),
                         add_effect (LogError (''Webhook '' @ lookupKey callback_url
                           @ '' not found.'')) w)
                    | Some webhook \<Rightarrow>
                        (let digest = createHmac_sha256_hex m (secret webhook) (rawBody req)
                         in if signatureMatches digest (the (header req ''X-Hub-Signature''))
                            then (Next req, res, w)
                            else (Responded, end_res None (sendStatus 400 res),
                                  add_effect (LogError
                                    ''Request gave bad X-Hub-Signature; Rejecting request.'') w))))
            else (Responded, end_res None (sendStatus 400 res),
                  add_effect (LogError
                    ''Request had no X-Hub-Signature header; Rejecting request.'') w)
          else (Next req, res, w))"

section \<open>A sample deployment\<close>

text \<open>
  One subscription to the stream topic of user 42, and a manager whose collaborators are
  small tables: the hub answers its \<open>n\<close>-th request with the \<open>n\<close>-th status of a list
  (202 afterwards), the URL parser knows the URLs used below. \<open>sampleWorld\<close> holds the
  record and has no \<^verbatim>\<open>'error'\<close> listener, \<open>listeningWorld\<close> has one; \<open>tokenlessManager\<close>
  cannot resolve an access token.
\<close>

definition sampleTopic :: string where
  "sampleTopic = ''https://api.twitch.tv/helix/streams?user_id=42''"

definition sampleWebhook :: WebhookPersistenceObject where
  "sampleWebhook =
     \<lparr>id_w = ''streams?user_id=42'', href = sampleTopic, secret = ''s3cr3t'',
      leaseSeconds = 864000, subscribed = False,
      subscriptionStart = None, subscriptionEnd = None\<rparr>"

definition sampleQuery :: string where
  "sampleQuery = ''&hub.topic=https%3A%2F%2Fapi.twitch.tv%2Fhelix%2Fstreams%3Fuser_id%3D42''"

definition sampleUrl :: "string \<Rightarrow> (string \<times> string) list \<Rightarrow> url" where
  "sampleUrl u params =
     \<lparr>pathname = ''/hooks/streams'', search = dropWhile (\<lambda>c. c \<noteq> CHR ''?'') u,
      searchParams = params @ [(''hub.topic'', sampleTopic)], href_url = u\<rparr>"

definition deniedUrl :: string where
  "deniedUrl = ''/hooks/streams?hub.mode=denied&hub.reason=unauthorized'' @ sampleQuery"

definition noModeUrl :: string where
  "noModeUrl = ''/hooks/streams?hub.challenge=abc'' @ sampleQuery"

definition unsubscribeUrl :: string where
  "unsubscribeUrl = ''/hooks/streams?hub.mode=unsubscribe&hub.challenge=abc'' @ sampleQuery"

definition confirmUrl :: string where
  "confirmUrl = ''/hooks/streams?hub.mode=subscribe&hub.challenge=abc'' @ sampleQuery"

definition confirmLeaseUrl :: string where
  "confirmLeaseUrl = ''/hooks/streams?hub.mode=subscribe&hub.lease_seconds=10'' @ sampleQuery"

definition sampleTopicUrl :: url where
  "sampleTopicUrl =
     \<lparr>pathname = ''/helix/streams'', search = ''?user_id=42'',
      searchParams = [(''user_id'', ''42'')], href_url = sampleTopic\<rparr>"

definition sampleURL_new :: "string \<Rightarrow> string option \<Rightarrow> url option" where
  "sampleURL_new u base =
     (if u = sampleTopic \<and> base = None then Some sampleTopicUrl
      else if u = ''/hooks/streams?user_id=42'' then
        Some \<lparr>pathname = ''/hooks/streams'', search = ''?user_id=42'',
              searchParams = [(''user_id'', ''42'')],
              href_url = ''https://example.org/hooks/streams?user_id=42''\<rparr>
      else if u = deniedUrl then
        Some (sampleUrl u [(''hub.mode'', ''denied''), (''hub.reason'', ''unauthorized'')])
      else if u = noModeUrl then
        Some (sampleUrl u [(''hub.challenge'', ''abc'')])
      else if u = unsubscribeUrl then
        Some (sampleUrl u [(''hub.mode'', ''unsubscribe''), (''hub.challenge'', ''abc'')])
      else if u = confirmUrl then
        Some (sampleUrl u [(''hub.mode'', ''subscribe''), (''hub.challenge'', ''abc'')])
      else if u = confirmLeaseUrl then
        Some (sampleUrl u [(''hub.mode'', ''subscribe''), (''hub.lease_seconds'', ''10'')])
      else None)"

definition sampleManager :: "nat list \<Rightarrow> bool \<Rightarrow> unit manager" where
  "sampleManager statuses scheduler =
     \<lparr>client_id = ''client'', hostname = ''https://example.org'',
      renewalScheduler = scheduler,
      getOAuthToken = (\<lambda>userId. Inr ''token''),
      refreshOAuthToken = (\<lambda>token. Inr ''fresh''),
      hub = (\<lambda>n r. Inr \<lparr>statusCode = (if n < length statuses then statuses ! n else 202),
                               body_resp = ''hub''\<rparr>),
      createErrorFromResponse = (\<lambda>resp b. Some (OtherError ''TwitchRequestError'' b)),
      getCallbackUrl = (\<lambda>webhook. ''https://example.org/hooks/'' @ id_w webhook),
      createWebhookPersistenceObject = (\<lambda>type params config. sampleWebhook),
      getIdFromTypeAndParams = (\<lambda>type search. ''streams'' @ search),
      createHmac_sha256_hex = (\<lambda>secret body. ''c0ffee''),
      JSON_parse = (\<lambda>s. if s = ''{}'' then Some (JObj []) else None),
      URL_new = sampleURL_new,
      decodeURIComponent = (\<lambda>s. if CHR ''%'' \<in> set s then None else Some s),
      clock = (\<lambda>k. 1000 + int k)\<rparr>"

definition emptyWorld :: world where
  "emptyWorld =
     \<lparr>store = [], trace = [], unhandled = [], clockReads = 0, errorListener = False\<rparr>"

definition sampleWorld :: world where
  "sampleWorld = emptyWorld\<lparr>store := [(''streams?user_id=42'', sampleWebhook)]\<rparr>"

definition listeningWorld :: world where
  "listeningWorld = sampleWorld\<lparr>errorListener := True\<rparr>"

definition tokenlessManager :: "unit manager" where
  "tokenlessManager =
     (sampleManager [] False)\<lparr>getOAuthToken := (\<lambda>userId. Inl (Error ''no token''))\<rparr>"

definition sampleHubParams :: HubParams where
  "sampleHubParams =
     \<lparr>hub_callback = ''https://example.org/hooks/streams?user_id=42'',
      hub_mode = ''subscribe'', hub_topic = sampleTopic,
      hub_lease_seconds = 864000, hub_secret = ''s3cr3t''\<rparr>"

definition samplePost :: "(string \<times> string) list \<Rightarrow> string \<Rightarrow> request" where
  "samplePost headers raw =
     \<lparr>method_req = ''POST'', header = map_of headers,
      originalUrl = ''/hooks/streams?user_id=42'', headers_host = Some ''example.org'',
      rawBody = raw, body_req = None\<rparr>"

section \<open>The hub request: no retry is ever sent\<close>

lemma hubPosts_add_HubPost: "hubPosts (add_effect (HubPost r) w) = hubPosts w @ [r]"
  by (simp add: hubPosts_def add_effect_def)

lemma div_100_eq_2: "(n::nat) div 100 = 2 \<longleftrightarrow> 200 \<le> n \<and> n \<le> 299"
  by arith

lemma is2xx_iff: "is2xx resp \<longleftrightarrow> 200 \<le> statusCode resp \<and> statusCode resp \<le> 299"
  by (auto simp add: is2xx_def div_100_eq_2)

lemma got_post_Inr:
  "got_post m n r = Inr resp \<longleftrightarrow> hub m n r = Inr resp \<and> isResponseOk resp"
  by (auto simp add: got_post_def split: sum.splits if_splits)

lemma got_post_not_401: "got_post m n r = Inr resp \<Longrightarrow> statusCode resp \<noteq> 401"
  by (auto simp add: got_post_Inr isResponseOk_def)

lemma doHubRequest_eq:
  "doHubRequest m hp tok w =
     (case hub m (length (hubPosts w)) (hubRequest m tok hp) of
        Inl e \<Rightarrow> Inl e
      | Inr resp \<Rightarrow>
          if is2xx resp then Inr ()
          else if statusCode resp = 304 then Inl (hubError m resp)
          else Inl (HTTPError resp),
      add_effect (HubPost (hubRequest m tok hp)) w)"
proof (cases "hub m (length (hubPosts w)) (hubRequest m tok hp)")
  case (Inl e)
  then show ?thesis
    by (simp add: doHubRequest_def post_def got_post_def)
next
  case (Inr resp)
  show ?thesis
  proof (cases "isResponseOk resp")
    case True
    then have "statusCode resp \<noteq> 401" "\<not> is2xx resp \<Longrightarrow> statusCode resp = 304"
      by (auto simp add: isResponseOk_def is2xx_iff)
    with Inr True show ?thesis
      by (auto simp add: doHubRequest_def post_def got_post_def)
  next
    case False
    then have "\<not> is2xx resp" "statusCode resp \<noteq> 304"
      by (auto simp add: isResponseOk_def is2xx_iff)
    with Inr False show ?thesis
      by (simp add: doHubRequest_def post_def got_post_def)
  qed
qed

text \<open>
  C2 does not hold of a 401. \<open>doHubRequest\<close> sends exactly one request whatever the hub
  answers: \<^verbatim>\<open>got.post\<close> rejects on a 401, so the call is rejected with got's \<^verbatim>\<open>HTTPError\<close>
  after the first request; the token is not refreshed and nothing is sent again. The
  branch for \<^verbatim>\<open>resp.statusCode === 401\<close> is never entered.
\<close>

theorem doHubRequest_never_retries:
  "hubPosts (snd (doHubRequest m hp tok w)) = hubPosts w @ [hubRequest m tok hp]
   \<and> (\<forall>resp. hub m (length (hubPosts w)) (hubRequest m tok hp) = Inr resp
          \<and> statusCode resp = 401 \<longrightarrow>
        fst (doHubRequest m hp tok w) = Inl (HTTPError resp))"
  by (simp add: doHubRequest_eq hubPosts_add_HubPost is2xx_iff)

text \<open>
  The hub would answer 401 and then 204: one request is sent, with the first token, and
  the call is rejected with the \<^verbatim>\<open>HTTPError\<close> of the 401.
\<close>

theorem doHubRequest_never_retries_witness:
  "fst (doHubRequest (sampleManager [401, 204] False) sampleHubParams ''token'' emptyWorld)
     = Inl (HTTPError \<lparr>statusCode = 401, body_resp = ''hub''\<rparr>)
   \<and> map Authorization (hubPosts (snd (doHubRequest (sampleManager [401, 204] False)
         sampleHubParams ''token'' emptyWorld))) = [''Bearer token'']"
proof -
  have a: "hub (sampleManager [401, 204] False) (length (hubPosts emptyWorld))
        (hubRequest (sampleManager [401, 204] False) ''token'' sampleHubParams)
      = Inr \<lparr>statusCode = 401, body_resp = ''hub''\<rparr>
     \<and> statusCode \<lparr>statusCode = 401, body_resp = ''hub''\<rparr> = 401"
    by (simp add: sampleManager_def hubPosts_def emptyWorld_def)
  have b: "hubPosts emptyWorld = []"
    by (simp add: hubPosts_def emptyWorld_def)
  show ?thesis
    using doHubRequest_never_retries [of "sampleManager [401, 204] False" sampleHubParams
        "''token''" emptyWorld, THEN conjunct1]
      doHubRequest_never_retries [of "sampleManager [401, 204] False" sampleHubParams
        "''token''" emptyWorld, THEN conjunct2, rule_format, OF a]
    by (simp add: b hubRequest_def)
qed

section \<open>Subscribing\<close>

lemma store_add_effect [simp]: "store (add_effect e w) = store w"
  by (simp add: add_effect_def)

lemma doHubRequest_store: "store (snd (doHubRequest m hp tok w)) = store w"
  by (simp add: doHubRequest_def post_def split: sum.splits)

lemma changeSub_store: "store (snd (changeSub m webhook b u w)) = store w"
  by (simp add: changeSub_def doHubRequest_store split: sum.splits)

lemma getWebhookById_changeSub:
  "getWebhookById (snd (changeSub m webhook b u w)) i = getWebhookById w i"
  by (simp add: getWebhookById_def changeSub_store)

lemma persistInserts_add_HubPost: "persistInserts (add_effect (HubPost r) w) = persistInserts w"
  by (simp add: persistInserts_def add_effect_def)

lemma doHubRequest_persistInserts:
  "persistInserts (snd (doHubRequest m hp tok w)) = persistInserts w"
  by (simp add: doHubRequest_def post_def persistInserts_add_HubPost split: sum.splits)

lemma changeSub_persistInserts:
  "persistInserts (snd (changeSub m webhook b u w)) = persistInserts w"
  by (simp add: changeSub_def doHubRequest_persistInserts split: sum.splits)

lemma getWebhookById_persistWebhook:
  "getWebhookById (persistWebhook webhook w) (id_w webhook) = Some webhook"
  by (simp add: getWebhookById_def persistWebhook_def update_conv')

lemma persistInserts_persistWebhook:
  "persistInserts (persistWebhook webhook w) = persistInserts w @ [webhook]"
  by (simp add: persistInserts_def persistWebhook_def add_effect_def)

lemma hubPosts_persistWebhook: "hubPosts (persistWebhook webhook w) = hubPosts w"
  by (simp add: hubPosts_def persistWebhook_def add_effect_def)

lemma doHubRequest_posts:
  "hubPosts (snd (doHubRequest m hp tok w)) = hubPosts w @ [hubRequest m tok hp]"
  by (simp add: doHubRequest_eq hubPosts_add_HubPost)

lemma changeSub_posts_exact:
  "hubPosts (snd (changeSub m webhook b u w))
     = hubPosts w @ (case getOAuthToken m u of
                       Inl e \<Rightarrow> []
                     | Inr tok \<Rightarrow> [hubRequest m tok (hubParamsOf m webhook b)])"
  by (simp add: changeSub_def doHubRequest_posts split: sum.splits)

lemma changeSub_result:
  "fst (changeSub m webhook b u w)
     = (case getOAuthToken m u of
          Inl e \<Rightarrow> Inl e
        | Inr tok \<Rightarrow>
            (case hub m (length (hubPosts w)) (hubRequest m tok (hubParamsOf m webhook b)) of
               Inl e \<Rightarrow> Inl e
             | Inr resp \<Rightarrow>
                 if is2xx resp then Inr ()
                 else if statusCode resp = 304 then Inl (hubError m resp)
                 else Inl (HTTPError resp)))"
  by (simp add: changeSub_def doHubRequest_eq split: sum.splits)

lemma subscribe_existing:
  "getWebhookById w (id_w (createWebhookPersistenceObject m t ps c)) = Some old
   \<Longrightarrow> subscribeOrGetSubscription m t ps c u w = (Inr (id_w old), w)"
  by (simp add: subscribeOrGetSubscription_def)

lemma subscribe_fresh:
  "getWebhookById w (id_w (createWebhookPersistenceObject m t ps c)) = None
   \<Longrightarrow> subscribeOrGetSubscription m t ps c u w =
       (map_sum id (\<lambda>_. id_w (createWebhookPersistenceObject m t ps c))
          (fst (changeSub m (createWebhookPersistenceObject m t ps c) True u
                 (persistWebhook (createWebhookPersistenceObject m t ps c) w))),
        snd (changeSub m (createWebhookPersistenceObject m t ps c) True u
                 (persistWebhook (createWebhookPersistenceObject m t ps c) w)))"
  by (simp add: subscribeOrGetSubscription_def Let_def split: prod.splits sum.splits)

text \<open>
  C3, as the claim states it, fails in two ways. When the hub refuses the first request
  (it answers 500), the first of two identical calls is rejected with got's \<^verbatim>\<open>HTTPError\<close>
  and only the second returns the id, so the id is not returned both times. When no
  access token can be resolved, the first call is rejected before anything is sent, so no
  hub request is issued at all.
\<close>

theorem subscribe_twice_counterexample:
  "fst (subscribeOrGetSubscription (sampleManager [500] False) (Suc 0) [(''user_id'', ''42'')] ()
         None emptyWorld) = Inl (HTTPError \<lparr>statusCode = 500, body_resp = ''hub''\<rparr>)
   \<and> fst (subscribeOrGetSubscription (sampleManager [500] False) (Suc 0) [(''user_id'', ''42'')]
         () None
         (snd (subscribeOrGetSubscription (sampleManager [500] False) (Suc 0)
            [(''user_id'', ''42'')] () None emptyWorld))) = Inr ''streams?user_id=42''
   \<and> hubPosts (snd (subscribeOrGetSubscription tokenlessManager (Suc 0) [(''user_id'', ''42'')]
         () None emptyWorld)) = []
   \<and> hubPosts (snd (subscribeOrGetSubscription tokenlessManager (Suc 0) [(''user_id'', ''42'')]
         () None
         (snd (subscribeOrGetSubscription tokenlessManager (Suc 0) [(''user_id'', ''42'')]
            () None emptyWorld)))) = []"
  by (simp add: subscribeOrGetSubscription_def sampleManager_def tokenlessManager_def
      emptyWorld_def sampleWebhook_def getWebhookById_def persistWebhook_def add_effect_def
      changeSub_def doHubRequest_def post_def got_post_def isResponseOk_def hubPosts_def
      is2xx_def hubError_def hubParamsOf_def hubRequest_def Let_def)

text \<open>
  C3, amended. When a record with the derived id exists, \<open>subscribeOrGetSubscription\<close>
  returns that record's id and changes nothing: no insert, no hub request. When none
  exists, the first of two identical calls inserts the record exactly once and sends
  exactly one hub request, or none if no access token is resolved; it returns the derived
  id exactly when a token is resolved and the hub answers that request with a 2xx, and is
  rejected otherwise: with the error of the token or of the transport, or with got's
  \<^verbatim>\<open>HTTPError\<close> of the response (for a 304, with the error made from the response). The
  second call returns the derived id and changes nothing, whatever became of the first.
\<close>

theorem subscribe_twice:
  "(\<forall>old. getWebhookById w (id_w (createWebhookPersistenceObject m t ps c)) = Some old \<longrightarrow>
      subscribeOrGetSubscription m t ps c u w = (Inr (id_w old), w))
   \<and> (getWebhookById w (id_w (createWebhookPersistenceObject m t ps c)) = None \<longrightarrow>
        subscribeOrGetSubscription m t ps c u (snd (subscribeOrGetSubscription m t ps c u w))
          = (Inr (id_w (createWebhookPersistenceObject m t ps c)),
             snd (subscribeOrGetSubscription m t ps c u w))
        \<and> persistInserts (snd (subscribeOrGetSubscription m t ps c u w))
            = persistInserts w @ [createWebhookPersistenceObject m t ps c]
        \<and> hubPosts (snd (subscribeOrGetSubscription m t ps c u w))
            = hubPosts w @
               (case getOAuthToken m u of
                  Inl e \<Rightarrow> []
                | Inr tok \<Rightarrow>
                    [hubRequest m tok
                       (hubParamsOf m (createWebhookPersistenceObject m t ps c) True)])
        \<and> fst (subscribeOrGetSubscription m t ps c u w)
            = (case getOAuthToken m u of
                 Inl e \<Rightarrow> Inl e
               | Inr tok \<Rightarrow>
                   (case hub m (length (hubPosts w))
                           (hubRequest m tok
                              (hubParamsOf m (createWebhookPersistenceObject m t ps c) True)) of
                      Inl e \<Rightarrow> Inl e
                    | Inr resp \<Rightarrow>
                        if is2xx resp
                        then Inr (id_w (createWebhookPersistenceObject m t ps c))
                        else if statusCode resp = 304 then Inl (hubError m resp)
                        else Inl (HTTPError resp))))"
proof (intro conjI allI impI)
  fix old
  assume "getWebhookById w (id_w (createWebhookPersistenceObject m t ps c)) = Some old"
  then show "subscribeOrGetSubscription m t ps c u w = (Inr (id_w old), w)"
    by (rule subscribe_existing)
next
  let ?wh = "createWebhookPersistenceObject m t ps c"
  let ?cs = "changeSub m ?wh True u (persistWebhook ?wh w)"
  assume fresh: "getWebhookById w (id_w ?wh) = None"
  have first: "subscribeOrGetSubscription m t ps c u w
      = (map_sum id (\<lambda>_. id_w ?wh) (fst ?cs), snd ?cs)"
    using fresh by (rule subscribe_fresh)
  have found: "getWebhookById (snd ?cs) (id_w ?wh) = Some ?wh"
    by (simp add: getWebhookById_changeSub getWebhookById_persistWebhook)
  have second: "subscribeOrGetSubscription m t ps c u (snd ?cs) = (Inr (id_w ?wh), snd ?cs)"
    using found by (rule subscribe_existing)
  show "subscribeOrGetSubscription m t ps c u (snd (subscribeOrGetSubscription m t ps c u w))
          = (Inr (id_w ?wh), snd (subscribeOrGetSubscription m t ps c u w))"
    by (simp add: first second)
  show "persistInserts (snd (subscribeOrGetSubscription m t ps c u w)) = persistInserts w @ [?wh]"
    by (simp add: first changeSub_persistInserts persistInserts_persistWebhook)
  show "hubPosts (snd (subscribeOrGetSubscription m t ps c u w))
      = hubPosts w @ (case getOAuthToken m u of
                        Inl e \<Rightarrow> []
                      | Inr tok \<Rightarrow> [hubRequest m tok (hubParamsOf m ?wh True)])"
    by (simp add: first changeSub_posts_exact hubPosts_persistWebhook)
  show "fst (subscribeOrGetSubscription m t ps c u w)
      = (case getOAuthToken m u of
           Inl e \<Rightarrow> Inl e
         | Inr tok \<Rightarrow>
             (case hub m (length (hubPosts w)) (hubRequest m tok (hubParamsOf m ?wh True)) of
                Inl e \<Rightarrow> Inl e
              | Inr resp \<Rightarrow>
                  if is2xx resp then Inr (id_w ?wh)
                  else if statusCode resp = 304 then Inl (hubError m resp)
                  else Inl (HTTPError resp)))"
    by (simp add: first changeSub_result hubPosts_persistWebhook split: sum.splits)
qed

theorem subscribe_twice_witness:
  "getWebhookById emptyWorld ''streams?user_id=42'' = None
   \<and> fst (subscribeOrGetSubscription (sampleManager [] False) (Suc 0) [(''user_id'', ''42'')] ()
         None emptyWorld) = Inr ''streams?user_id=42''
   \<and> fst (subscribeOrGetSubscription (sampleManager [] False) (Suc 0) [(''user_id'', ''42'')] ()
         None
         (snd (subscribeOrGetSubscription (sampleManager [] False) (Suc 0)
            [(''user_id'', ''42'')] () None emptyWorld))) = Inr ''streams?user_id=42''
   \<and> persistInserts (snd (subscribeOrGetSubscription (sampleManager [] False) (Suc 0)
         [(''user_id'', ''42'')] () None emptyWorld)) = [sampleWebhook]
   \<and> length (hubPosts (snd (subscribeOrGetSubscription (sampleManager [] False) (Suc 0)
         [(''user_id'', ''42'')] () None emptyWorld))) = 1
   \<and> subscribeOrGetSubscription (sampleManager [] False) (Suc 0) [(''user_id'', ''42'')] () None
         sampleWorld = (Inr ''streams?user_id=42'', sampleWorld)"
proof -
  have cr: "createWebhookPersistenceObject (sampleManager [] False) (Suc 0)
      [(''user_id'', ''42'')] () = sampleWebhook"
    by (simp add: sampleManager_def)
  have idw: "id_w sampleWebhook = ''streams?user_id=42''"
    by (simp add: sampleWebhook_def)
  have fresh: "getWebhookById emptyWorld ''streams?user_id=42'' = None"
    by (simp add: getWebhookById_def emptyWorld_def)
  have held: "getWebhookById sampleWorld ''streams?user_id=42'' = Some sampleWebhook"
    by (simp add: getWebhookById_def sampleWorld_def emptyWorld_def)
  have none: "persistInserts emptyWorld = []" "hubPosts emptyWorld = []"
    by (simp_all add: persistInserts_def hubPosts_def emptyWorld_def)
  have tok: "getOAuthToken (sampleManager [] False) None = Inr ''token''"
    by (simp add: sampleManager_def)
  have resp: "hub (sampleManager [] False) 0
      (hubRequest (sampleManager [] False) ''token''
         (hubParamsOf (sampleManager [] False) sampleWebhook True))
      = Inr \<lparr>statusCode = 202, body_resp = ''hub''\<rparr>"
    by (simp add: sampleManager_def)
  have ok: "is2xx \<lparr>statusCode = 202, body_resp = ''hub''\<rparr>"
    by (simp add: is2xx_def)
  show ?thesis
    using fresh held none tok resp ok
      subscribe_twice [of emptyWorld "sampleManager [] False" "Suc 0" "[(''user_id'', ''42'')]"
        "()" None]
      subscribe_twice [of sampleWorld "sampleManager [] False" "Suc 0" "[(''user_id'', ''42'')]"
        "()" None]
    by (simp add: cr idw)
qed

section \<open>Unsubscribing and the verification callbacks\<close>

lemma schedulerRemovals_add_HubPost:
  "schedulerRemovals (add_effect (HubPost r) w) = schedulerRemovals w"
  by (simp add: schedulerRemovals_def add_effect_def)

lemma doHubRequest_schedulerRemovals:
  "schedulerRemovals (snd (doHubRequest m hp tok w)) = schedulerRemovals w"
  by (simp add: doHubRequest_def post_def schedulerRemovals_add_HubPost split: sum.splits)

lemma changeSub_schedulerRemovals:
  "schedulerRemovals (snd (changeSub m webhook b u w)) = schedulerRemovals w"
  by (simp add: changeSub_def doHubRequest_schedulerRemovals split: sum.splits)

lemma schedulerRemovals_add_Remove:
  "schedulerRemovals (add_effect (RemoveFromScheduler i) w) = schedulerRemovals w @ [i]"
  by (simp add: schedulerRemovals_def add_effect_def)

lemma hubPosts_add_Remove: "hubPosts (add_effect (RemoveFromScheduler i) w) = hubPosts w"
  by (simp add: hubPosts_def add_effect_def)

lemma doHubRequest_posts_mode:
  "\<exists>ps. hubPosts (snd (doHubRequest m hp tok w)) = hubPosts w @ hubRequest m tok hp # ps
     \<and> (\<forall>p \<in> set ps. body_hub p = hp)"
  by (simp add: doHubRequest_def post_def hubPosts_add_HubPost hubRequest_def split: sum.splits)

lemma unsubscribePersistenceObject_eq:
  "unsubscribePersistenceObject m webhook w =
     (fst (changeSub m webhook False None w),
      if fst (changeSub m webhook False None w) = Inr () \<and> renewalScheduler m
      then add_effect (RemoveFromScheduler (id_w webhook)) (snd (changeSub m webhook False None w))
      else snd (changeSub m webhook False None w))"
  by (auto simp add: unsubscribePersistenceObject_def split: prod.splits sum.splits)

lemma unsubscribePersistenceObject_store:
  "store (snd (unsubscribePersistenceObject m webhook w)) = store w"
  by (simp add: unsubscribePersistenceObject_eq changeSub_store)

lemma unsubscribePersistenceObject_posts:
  "hubPosts (snd (unsubscribePersistenceObject m webhook w))
     = hubPosts (snd (changeSub m webhook False None w))"
  by (simp add: unsubscribePersistenceObject_eq hubPosts_add_Remove)

lemma unsubscribePersistenceObject_removals:
  "schedulerRemovals (snd (unsubscribePersistenceObject m webhook w))
     = (if fst (changeSub m webhook False None w) = Inr () \<and> renewalScheduler m
        then schedulerRemovals w @ [id_w webhook] else schedulerRemovals w)"
  by (simp add: unsubscribePersistenceObject_eq schedulerRemovals_add_Remove
      changeSub_schedulerRemovals)

lemma unsubscribe_eq:
  "getWebhookById w i = Some webhook \<Longrightarrow>
   unsubscribe m i w =
     (Inr (),
      case fst (unsubscribePersistenceObject m webhook w) of
        Inl e \<Rightarrow> (snd (unsubscribePersistenceObject m webhook w))
                  \<lparr>unhandled := unhandled (snd (unsubscribePersistenceObject m webhook w)) @ [e]\<rparr>
      | Inr _ \<Rightarrow> snd (unsubscribePersistenceObject m webhook w))"
  by (auto simp add: unsubscribe_def split: prod.splits sum.splits)

lemma unsubscribe_present:
  "getWebhookById w i = Some webhook \<Longrightarrow>
     fst (unsubscribe m i w) = Inr ()
     \<and> store (snd (unsubscribe m i w)) = store w
     \<and> hubPosts (snd (unsubscribe m i w)) = hubPosts (snd (changeSub m webhook False None w))
     \<and> schedulerRemovals (snd (unsubscribe m i w))
         = schedulerRemovals (snd (unsubscribePersistenceObject m webhook w))"
  using unsubscribePersistenceObject_store [of m webhook w]
    unsubscribePersistenceObject_posts [of m webhook w]
  by (simp add: unsubscribe_eq hubPosts_def schedulerRemovals_def split: sum.splits)

lemma changeSub_posts:
  "getOAuthToken m u = Inr tok \<Longrightarrow>
     \<exists>ps. hubPosts (snd (changeSub m webhook b u w))
            = hubPosts w @ hubRequest m tok (hubParamsOf m webhook b) # ps
        \<and> (\<forall>p \<in> set ps. body_hub p = hubParamsOf m webhook b)"
  using doHubRequest_posts_mode [of m "hubParamsOf m webhook b" tok w]
  by (simp add: changeSub_def)


lemma handleGet_found:
  assumes "URL_new m url (Some (hostname m)) = Some ou"
    and "searchParams_get ou ''hub.topic'' = Some tp0" and "tp0 \<noteq> []"
    and "decodeURIComponent m tp0 = Some tp"
    and "URL_new m tp None = Some tu"
    and "getWebhookById w (getIdFromTypeAndParams m ty (search tu)) = Some webhook"
  shows "handleGet m ty url res w =
     (if \<not> truthy (searchParams_get ou ''hub.mode'')
          \<or> searchParams_get ou ''hub.mode'' = Some ''denied''
      then (if errorListener w then Inr ()
            else Inl (SubscriptionDeniedError webhook
                (if truthy (searchParams_get ou ''hub.reason'')
                 then the (searchParams_get ou ''hub.reason'') else ''No reason given'')),
            end_res None res,
            add_effect (Emit (ErrorEvent (SubscriptionDeniedError webhook
                (if truthy (searchParams_get ou ''hub.reason'')
                 then the (searchParams_get ou ''hub.reason'') else ''No reason given'')) None))
              (deleteWebhook (getIdFromTypeAndParams m ty (search tu))
                (add_effect (LogError (''Subscription denied. reason: ''
                   @ (case searchParams_get ou ''hub.reason'' of None \<Rightarrow> ''null'' | Some r \<Rightarrow> r)))
                   w)))
      else if searchParams_get ou ''hub.mode'' = Some ''unsubscribe''
      then (Inr (),
            end_res (searchParams_get ou ''hub.challenge'')
              (res\<lparr>contentType := Some ''text/plain'', status := 200\<rparr>),
            add_effect (Emit (UnsubscribedEvent (id_w webhook)))
              (deleteWebhook (id_w webhook) w))
      else (Inr (),
            fst (confirmSubscription m ou (getIdFromTypeAndParams m ty (search tu)) webhook res w),
            snd (confirmSubscription m ou (getIdFromTypeAndParams m ty (search tu)) webhook res w)))"
  using assms by (simp add: handleGet_def truthy_def Let_def split: prod.splits)

lemma getWebhookById_add_effect [simp]: "getWebhookById (add_effect e w) i = getWebhookById w i"
  by (simp add: getWebhookById_def)

lemma getWebhookById_deleteWebhook: "getWebhookById (deleteWebhook i w) i = None"
  by (simp add: getWebhookById_def deleteWebhook_def delete_conv')

lemma emitted_simps:
  "emitted (add_effect (Emit e) w) = emitted w @ [e]"
  "emitted (add_effect (LogError s) w) = emitted w"
  "emitted (deleteWebhook i w) = emitted w"
  by (simp_all add: emitted_def add_effect_def deleteWebhook_def)

lemma store_deleteWebhook: "store (deleteWebhook i w) = AList.delete i (store w)"
  by (simp add: deleteWebhook_def)


lemma sample_urls:
  "URL_new (sampleManager ss b) deniedUrl (Some (hostname (sampleManager ss b)))
     = Some (sampleUrl deniedUrl [(''hub.mode'', ''denied''), (''hub.reason'', ''unauthorized'')])"
  "URL_new (sampleManager ss b) noModeUrl (Some (hostname (sampleManager ss b)))
     = Some (sampleUrl noModeUrl [(''hub.challenge'', ''abc'')])"
  "URL_new (sampleManager ss b) unsubscribeUrl (Some (hostname (sampleManager ss b)))
     = Some (sampleUrl unsubscribeUrl [(''hub.mode'', ''unsubscribe''), (''hub.challenge'', ''abc'')])"
  "URL_new (sampleManager ss b) confirmUrl (Some (hostname (sampleManager ss b)))
     = Some (sampleUrl confirmUrl [(''hub.mode'', ''subscribe''), (''hub.challenge'', ''abc'')])"
  "URL_new (sampleManager ss b) confirmLeaseUrl (Some (hostname (sampleManager ss b)))
     = Some (sampleUrl confirmLeaseUrl [(''hub.mode'', ''subscribe''), (''hub.lease_seconds'', ''10'')])"
  "URL_new (sampleManager ss b) sampleTopic None = Some sampleTopicUrl"
  by (simp_all add: sampleManager_def sampleURL_new_def deniedUrl_def noModeUrl_def
      unsubscribeUrl_def confirmUrl_def confirmLeaseUrl_def sampleTopic_def sampleQuery_def)

lemma sample_resolution:
  "searchParams_get (sampleUrl u ps) ''hub.topic'' = (case map_of ps ''hub.topic'' of None \<Rightarrow> Some sampleTopic | Some x \<Rightarrow> Some x)"
  "sampleTopic \<noteq> []"
  "decodeURIComponent (sampleManager ss b) sampleTopic = Some sampleTopic"
  "getIdFromTypeAndParams (sampleManager ss b) ty (search sampleTopicUrl) = ''streams?user_id=42''"
  "getWebhookById sampleWorld ''streams?user_id=42'' = Some sampleWebhook"
  "getWebhookById listeningWorld ''streams?user_id=42'' = Some sampleWebhook"
  by (simp_all add: searchParams_get_def sampleUrl_def map_add_def sampleTopic_def sampleManager_def
      sampleTopicUrl_def getWebhookById_def sampleWorld_def listeningWorld_def emptyWorld_def
      split: option.splits)


text \<open>
  C7, as the claim states it, fails when the hub refuses the request: the record is
  present and a renewal scheduler is configured, the hub answers 500, and the record is
  not removed from the scheduler.
\<close>

theorem unsubscribe_counterexample:
  "getWebhookById sampleWorld ''streams?user_id=42'' = Some sampleWebhook
   \<and> renewalScheduler (sampleManager [500] True)
   \<and> schedulerRemovals (snd (unsubscribe (sampleManager [500] True) ''streams?user_id=42''
         sampleWorld)) = []"
  by (simp add: unsubscribe_def unsubscribePersistenceObject_def sampleManager_def
      sampleWorld_def emptyWorld_def sampleWebhook_def getWebhookById_def add_effect_def
      changeSub_def doHubRequest_def post_def got_post_def isResponseOk_def hubPosts_def
      is2xx_def hubError_def hubParamsOf_def hubRequest_def schedulerRemovals_def)

text \<open>
  C7, amended. \<open>unsubscribe\<close> of an id that is not stored fails with the not-found error
  and changes nothing. Of an id that is stored, it leaves the store as it is; when a
  token is resolved it sends the hub a request whose mode is \<^verbatim>\<open>unsubscribe\<close> (and at most a
  retry of the same parameters); and it removes the record from the renewal scheduler
  exactly when the hub request succeeds and a scheduler is configured. The record is
  deleted by the GET callback whose \<^verbatim>\<open>hub.mode\<close> is \<^verbatim>\<open>unsubscribe\<close>, which also answers 200
  with the challenge as body and emits \<^verbatim>\<open>unsubscribed\<close> with the record's id.
\<close>

theorem unsubscribe_frame:
  "(getWebhookById w i = None \<longrightarrow> unsubscribe m i w = (Inl (notFound i), w))
   \<and> (\<forall>webhook. getWebhookById w i = Some webhook \<longrightarrow>
        store (snd (unsubscribe m i w)) = store w
        \<and> hub_mode (hubParamsOf m webhook False) = ''unsubscribe''
        \<and> (\<forall>tok. getOAuthToken m None = Inr tok \<longrightarrow>
              (\<exists>ps. hubPosts (snd (unsubscribe m i w))
                      = hubPosts w @ hubRequest m tok (hubParamsOf m webhook False) # ps
                  \<and> (\<forall>p \<in> set ps. body_hub p = hubParamsOf m webhook False)))
        \<and> schedulerRemovals (snd (unsubscribe m i w))
            = (if fst (changeSub m webhook False None w) = Inr () \<and> renewalScheduler m
               then schedulerRemovals w @ [id_w webhook] else schedulerRemovals w))
   \<and> (\<forall>ou tp0 tp tu webhook.
        URL_new m url (Some (hostname m)) = Some ou
        \<and> searchParams_get ou ''hub.topic'' = Some tp0 \<and> tp0 \<noteq> []
        \<and> decodeURIComponent m tp0 = Some tp
        \<and> URL_new m tp None = Some tu
        \<and> getWebhookById w2 (getIdFromTypeAndParams m ty (search tu)) = Some webhook
        \<and> searchParams_get ou ''hub.mode'' = Some ''unsubscribe''
        \<and> \<not> ended res \<longrightarrow>
        fst (handleGet m ty url res w2) = Inr ()
        \<and> store (snd (snd (handleGet m ty url res w2))) = AList.delete (id_w webhook) (store w2)
        \<and> getWebhookById (snd (snd (handleGet m ty url res w2))) (id_w webhook) = None
        \<and> body_res (fst (snd (handleGet m ty url res w2))) = searchParams_get ou ''hub.challenge''
        \<and> status (fst (snd (handleGet m ty url res w2))) = 200
        \<and> emitted (snd (snd (handleGet m ty url res w2)))
            = emitted w2 @ [UnsubscribedEvent (id_w webhook)])"
proof (intro conjI allI impI)
  assume "getWebhookById w i = None"
  then show "unsubscribe m i w = (Inl (notFound i), w)"
    by (simp add: unsubscribe_def)
next
  fix webhook
  assume present: "getWebhookById w i = Some webhook"
  show "store (snd (unsubscribe m i w)) = store w"
    using unsubscribe_present [OF present, of m] by simp
  show "hub_mode (hubParamsOf m webhook False) = ''unsubscribe''"
    by (simp add: hubParamsOf_def)
  show "schedulerRemovals (snd (unsubscribe m i w))
      = (if fst (changeSub m webhook False None w) = Inr () \<and> renewalScheduler m
         then schedulerRemovals w @ [id_w webhook] else schedulerRemovals w)"
    using unsubscribe_present [OF present, of m]
    by (simp only: unsubscribePersistenceObject_removals)
  fix tok
  assume "getOAuthToken m None = Inr tok"
  then show "\<exists>ps. hubPosts (snd (unsubscribe m i w))
                    = hubPosts w @ hubRequest m tok (hubParamsOf m webhook False) # ps
                \<and> (\<forall>p \<in> set ps. body_hub p = hubParamsOf m webhook False)"
    using unsubscribe_present [OF present, of m] changeSub_posts [of m None tok webhook False w]
    by simp
next
  fix ou tp0 tp tu webhook
  assume h: "URL_new m url (Some (hostname m)) = Some ou
        \<and> searchParams_get ou ''hub.topic'' = Some tp0 \<and> tp0 \<noteq> []
        \<and> decodeURIComponent m tp0 = Some tp
        \<and> URL_new m tp None = Some tu
        \<and> getWebhookById w2 (getIdFromTypeAndParams m ty (search tu)) = Some webhook
        \<and> searchParams_get ou ''hub.mode'' = Some ''unsubscribe''
        \<and> \<not> ended res"
  have eq: "handleGet m ty url res w2 =
      (Inr (), end_res (searchParams_get ou ''hub.challenge'')
                 (res\<lparr>contentType := Some ''text/plain'', status := 200\<rparr>),
       add_effect (Emit (UnsubscribedEvent (id_w webhook))) (deleteWebhook (id_w webhook) w2))"
    using h handleGet_found [of m url ou tp0 tp tu w2 ty webhook res]
    by (simp add: truthy_def)
  show "fst (handleGet m ty url res w2) = Inr ()"
    by (simp add: eq)
  show "store (snd (snd (handleGet m ty url res w2))) = AList.delete (id_w webhook) (store w2)"
    by (simp add: eq store_deleteWebhook)
  show "getWebhookById (snd (snd (handleGet m ty url res w2))) (id_w webhook) = None"
    by (simp add: eq getWebhookById_deleteWebhook)
  show "body_res (fst (snd (handleGet m ty url res w2))) = searchParams_get ou ''hub.challenge''"
    using h by (simp add: eq end_res_def)
  show "status (fst (snd (handleGet m ty url res w2))) = 200"
    using h by (simp add: eq end_res_def)
  show "emitted (snd (snd (handleGet m ty url res w2)))
            = emitted w2 @ [UnsubscribedEvent (id_w webhook)]"
    by (simp add: eq emitted_simps)
qed



theorem unsubscribe_frame_witness:
  "unsubscribe (sampleManager [] True) ''other'' sampleWorld
     = (Inl (Error ''Webhook with id other could not be found!''), sampleWorld)
   \<and> store (snd (unsubscribe (sampleManager [] True) ''streams?user_id=42'' sampleWorld))
       = [(''streams?user_id=42'', sampleWebhook)]
   \<and> schedulerRemovals (snd (unsubscribe (sampleManager [] True) ''streams?user_id=42''
         sampleWorld)) = [''streams?user_id=42'']
   \<and> map (hub_mode \<circ> body_hub) (hubPosts (snd (unsubscribe (sampleManager [] True)
         ''streams?user_id=42'' sampleWorld))) = [''unsubscribe'']
   \<and> store (snd (snd (handleGet (sampleManager [] True) (Suc 0) unsubscribeUrl res0 sampleWorld)))
       = []
   \<and> body_res (fst (snd (handleGet (sampleManager [] True) (Suc 0) unsubscribeUrl res0
         sampleWorld))) = Some ''abc''
   \<and> emitted (snd (snd (handleGet (sampleManager [] True) (Suc 0) unsubscribeUrl res0
         sampleWorld))) = [UnsubscribedEvent ''streams?user_id=42'']"
proof -
  note T = unsubscribe_frame [where m = "sampleManager [] True" and w = sampleWorld
      and i = "''streams?user_id=42''" and url = unsubscribeUrl and ty = "Suc 0" and res = res0
      and ?w2.0 = sampleWorld]
  note U = unsubscribe_frame [where m = "sampleManager [] True" and w = sampleWorld
      and i = "''other''", THEN conjunct1]
  have absent: "getWebhookById sampleWorld ''other'' = None"
    by (simp add: getWebhookById_def sampleWorld_def emptyWorld_def)
  have held: "getWebhookById sampleWorld ''streams?user_id=42'' = Some sampleWebhook"
    by (simp add: getWebhookById_def sampleWorld_def emptyWorld_def)
  have tok: "getOAuthToken (sampleManager [] True) None = Inr ''token''"
    by (simp add: sampleManager_def)
  have ok: "fst (changeSub (sampleManager [] True) sampleWebhook False None sampleWorld) = Inr ()"
    by (simp add: changeSub_def doHubRequest_def post_def got_post_def isResponseOk_def
        sampleManager_def hubPosts_def sampleWorld_def emptyWorld_def is2xx_def)
  have posts: "hubPosts (snd (changeSub (sampleManager [] True) sampleWebhook False None
      sampleWorld)) = [hubRequest (sampleManager [] True) ''token''
         (hubParamsOf (sampleManager [] True) sampleWebhook False)]"
    by (simp add: changeSub_def doHubRequest_def post_def got_post_def isResponseOk_def
        sampleManager_def hubPosts_def sampleWorld_def emptyWorld_def is2xx_def add_effect_def)
  have h: "URL_new (sampleManager [] True) unsubscribeUrl (Some (hostname (sampleManager [] True)))
         = Some (sampleUrl unsubscribeUrl [(''hub.mode'', ''unsubscribe''), (''hub.challenge'', ''abc'')])
      \<and> searchParams_get (sampleUrl unsubscribeUrl
           [(''hub.mode'', ''unsubscribe''), (''hub.challenge'', ''abc'')]) ''hub.topic''
         = Some sampleTopic \<and> sampleTopic \<noteq> []
      \<and> decodeURIComponent (sampleManager [] True) sampleTopic = Some sampleTopic
      \<and> URL_new (sampleManager [] True) sampleTopic None = Some sampleTopicUrl
      \<and> getWebhookById sampleWorld
           (getIdFromTypeAndParams (sampleManager [] True) (Suc 0) (search sampleTopicUrl))
         = Some sampleWebhook
      \<and> searchParams_get (sampleUrl unsubscribeUrl
           [(''hub.mode'', ''unsubscribe''), (''hub.challenge'', ''abc'')]) ''hub.mode''
         = Some ''unsubscribe''
      \<and> \<not> ended res0"
    by (simp add: sample_urls sample_resolution res0_def)
       (simp add: searchParams_get_def sampleUrl_def)
  have e: "emitted sampleWorld = []" "store sampleWorld = [(''streams?user_id=42'', sampleWebhook)]"
    "schedulerRemovals sampleWorld = []" "hubPosts sampleWorld = []"
    "id_w sampleWebhook = ''streams?user_id=42''" "renewalScheduler (sampleManager [] True)"
    by (simp_all add: emitted_def sampleWorld_def emptyWorld_def schedulerRemovals_def hubPosts_def
        sampleWebhook_def sampleManager_def)
  have p1: "unsubscribe (sampleManager [] True) ''other'' sampleWorld
     = (Inl (Error ''Webhook with id other could not be found!''), sampleWorld)"
    using U absent by (simp add: notFound_def)
  have p2: "store (snd (unsubscribe (sampleManager [] True) ''streams?user_id=42'' sampleWorld))
       = [(''streams?user_id=42'', sampleWebhook)]
   \<and> schedulerRemovals (snd (unsubscribe (sampleManager [] True) ''streams?user_id=42''
         sampleWorld)) = [''streams?user_id=42'']"
    using T [THEN conjunct2, THEN conjunct1, rule_format, OF held] ok
    by (simp add: e)
  have p2': "map (hub_mode \<circ> body_hub) (hubPosts (snd (unsubscribe (sampleManager [] True)
         ''streams?user_id=42'' sampleWorld))) = [''unsubscribe'']"
    using unsubscribe_present [OF held, of "sampleManager [] True"] posts
    by (simp add: hubRequest_def hubParamsOf_def)
  show ?thesis
    using p1 p2 p2' T [THEN conjunct2, THEN conjunct2, rule_format, OF h]
    by (simp add: e searchParams_get_def sampleUrl_def)
qed

section \<open>Errors of the operations the caller invokes\<close>

text \<open>
  \<open>subscribeOrGetSubscription\<close> and \<open>resubscribe\<close> await \<open>changeSub\<close>, so its error is
  theirs; \<open>unsubscribe\<close> does not await \<open>unsubscribePersistenceObject\<close> and is fulfilled
  whenever the record is found.
\<close>

lemma unsubscribe_never_rejects_present:
  "getWebhookById w i = Some webhook \<Longrightarrow> fst (unsubscribe m i w) = Inr ()"
  by (simp add: unsubscribe_eq)

lemma resubscribe_rejects:
  "getWebhookById w i = Some webhook \<Longrightarrow>
     fst (resubscribe m i w) = fst (changeSub m webhook True None w)"
  by (simp add: resubscribe_def)

lemma subscribe_rejects:
  "getWebhookById w (id_w (createWebhookPersistenceObject m t ps c)) = None \<Longrightarrow>
   fst (changeSub m (createWebhookPersistenceObject m t ps c) True u
          (persistWebhook (createWebhookPersistenceObject m t ps c) w)) = Inl e \<Longrightarrow>
   fst (subscribeOrGetSubscription m t ps c u w) = Inl e"
  by (simp add: subscribe_fresh)

text \<open>
  C8 does not hold of \<open>unsubscribe\<close>: with the record stored and a hub that answers 500,
  the hub request fails with got's \<^verbatim>\<open>HTTPError\<close>, yet \<open>unsubscribe\<close> is fulfilled
  and the error ends among the rejections nobody handles; \<open>resubscribe\<close>, in the same
  state, is rejected with that error.
\<close>

theorem unsubscribe_swallows_hub_error:
  "fst (changeSub (sampleManager [500] False) sampleWebhook False None sampleWorld)
     = Inl (HTTPError \<lparr>statusCode = 500, body_resp = ''hub''\<rparr>)
   \<and> fst (unsubscribe (sampleManager [500] False) ''streams?user_id=42'' sampleWorld) = Inr ()
   \<and> unhandled (snd (unsubscribe (sampleManager [500] False) ''streams?user_id=42'' sampleWorld))
       = [HTTPError \<lparr>statusCode = 500, body_resp = ''hub''\<rparr>]
   \<and> fst (resubscribe (sampleManager [500] False) ''streams?user_id=42'' sampleWorld)
       = Inl (HTTPError \<lparr>statusCode = 500, body_resp = ''hub''\<rparr>)"
  by (simp add: unsubscribe_def resubscribe_def unsubscribePersistenceObject_def sampleManager_def
      sampleWorld_def emptyWorld_def sampleWebhook_def getWebhookById_def add_effect_def
      changeSub_def doHubRequest_def post_def got_post_def isResponseOk_def hubPosts_def
      is2xx_def hubError_def hubParamsOf_def hubRequest_def)

section \<open>The lease of a confirmed subscription\<close>

lemma getWebhookById_saveWebhook:
  "getWebhookById (saveWebhook webhook w) (id_w webhook) = Some webhook"
  by (simp add: getWebhookById_def saveWebhook_def update_conv')

lemma confirmSubscription_saved:
  "getWebhookById (snd (confirmSubscription m ou wid webhook res w)) (id_w webhook)
     = Some (webhook\<lparr>
         subscriptionStart := Some (Date (clock m (clockReads w))),
         subscriptionEnd := Some
           (if truthy (searchParams_get ou ''hub.lease_seconds'')
            then (case parseInt (the (searchParams_get ou ''hub.lease_seconds'')) of
                    None \<Rightarrow> InvalidDate
                  | Some lease \<Rightarrow> newDate (clock m (clockReads w) + lease * 1000))
            else newDate (clock m (Suc (clockReads w)) + leaseSeconds webhook * 1000)),
         subscribed := True\<rparr>)"
proof -
  have "getWebhookById (saveWebhook x v) (id_w webhook) = Some x" if "id_w x = id_w webhook" for x v
    using getWebhookById_saveWebhook [of x v] that by simp
  then show ?thesis
    by (simp add: confirmSubscription_def readClock_def Let_def split: option.splits)
qed

text \<open>
  With \<open>T\<close> the reading of the clock that becomes \<open>subscriptionStart\<close>: when the hub echoes
  lease seconds that \<open>parseInt\<close> reads as \<open>L\<close>, \<open>subscriptionEnd\<close> is \<open>T + L * 1000\<close>
  milliseconds. When it echoes none, \<open>subscriptionEnd\<close> is counted from the next reading
  of the clock (\<^verbatim>\<open>Date.now()\<close>), not from \<open>T\<close>.
\<close>

lemma lease_echoed:
  "searchParams_get ou ''hub.lease_seconds'' = Some s \<Longrightarrow> s \<noteq> [] \<Longrightarrow> parseInt s = Some L \<Longrightarrow>
   map_option (\<lambda>r. (subscriptionStart r, subscriptionEnd r))
     (getWebhookById (snd (confirmSubscription m ou wid webhook res w)) (id_w webhook))
   = Some (Some (Date (clock m (clockReads w))),
           Some (newDate (clock m (clockReads w) + L * 1000)))"
  by (simp add: confirmSubscription_saved truthy_def)

lemma lease_not_echoed:
  "\<not> truthy (searchParams_get ou ''hub.lease_seconds'') \<Longrightarrow>
   map_option (\<lambda>r. (subscriptionStart r, subscriptionEnd r))
     (getWebhookById (snd (confirmSubscription m ou wid webhook res w)) (id_w webhook))
   = Some (Some (Date (clock m (clockReads w))),
           Some (newDate (clock m (Suc (clockReads w)) + leaseSeconds webhook * 1000)))"
  by (simp add: confirmSubscription_saved)

lemma parseInt_examples:
  "parseInt ''10'' = Some 10" "parseInt ''864000'' = Some 864000" "parseInt '' 12abc'' = Some 12"
  "parseInt ''0x1F'' = Some 31" "parseInt ''-7'' = Some (- 7)" "parseInt ''abc'' = None"
  by (simp_all add: parseInt_def isWhiteSpace_def digitValue_def)

lemma lease_echoed_example:
  "map_option (\<lambda>r. (subscriptionStart r, subscriptionEnd r))
     (getWebhookById
        (snd (confirmSubscription (sampleManager [] False)
           (sampleUrl confirmLeaseUrl [(''hub.mode'', ''subscribe''), (''hub.lease_seconds'', ''10'')])
           ''streams?user_id=42'' sampleWebhook res0 sampleWorld))
        (id_w sampleWebhook))
   = Some (Some (Date 1000), Some (Date 11000))"
proof -
  have "searchParams_get
      (sampleUrl confirmLeaseUrl [(''hub.mode'', ''subscribe''), (''hub.lease_seconds'', ''10'')])
      ''hub.lease_seconds'' = Some ''10''"
    by (simp add: searchParams_get_def sampleUrl_def)
  then show ?thesis
    using lease_echoed [of _ "''10''" 10 "sampleManager [] False" "''streams?user_id=42''"
        sampleWebhook res0 sampleWorld]
    by (simp add: parseInt_examples sampleManager_def sampleWorld_def emptyWorld_def newDate_def)
qed

text \<open>
  C4 does not hold when no lease is echoed. A confirmation callback (a mode other than
  \<^verbatim>\<open>denied\<close> and \<^verbatim>\<open>unsubscribe\<close>) without \<^verbatim>\<open>hub.lease_seconds\<close> stores as \<open>subscriptionStart\<close>
  one reading of the clock and as \<open>subscriptionEnd\<close> the next reading plus the requested
  lease, so the end is the start plus the lease only if the clock has not moved in between.
\<close>

theorem lease_end_without_echo:
  assumes "URL_new m url (Some (hostname m)) = Some ou"
    and "searchParams_get ou ''hub.topic'' = Some tp0" and "tp0 \<noteq> []"
    and "decodeURIComponent m tp0 = Some tp"
    and "URL_new m tp None = Some tu"
    and "getWebhookById w (getIdFromTypeAndParams m ty (search tu)) = Some webhook"
    and "id_w webhook = getIdFromTypeAndParams m ty (search tu)"
    and "truthy (searchParams_get ou ''hub.mode'')"
    and "searchParams_get ou ''hub.mode'' \<noteq> Some ''denied''"
    and "searchParams_get ou ''hub.mode'' \<noteq> Some ''unsubscribe''"
    and "\<not> truthy (searchParams_get ou ''hub.lease_seconds'')"
  shows "map_option (\<lambda>r. (subscriptionStart r, subscriptionEnd r))
           (getWebhookById (snd (snd (handleGet m ty url res w)))
              (getIdFromTypeAndParams m ty (search tu)))
         = Some (Some (Date (clock m (clockReads w))),
                 Some (newDate (clock m (Suc (clockReads w)) + leaseSeconds webhook * 1000)))"
proof -
  have "handleGet m ty url res w =
      (Inr (),
       fst (confirmSubscription m ou (getIdFromTypeAndParams m ty (search tu)) webhook res w),
       snd (confirmSubscription m ou (getIdFromTypeAndParams m ty (search tu)) webhook res w))"
    using assms(8-10) by (simp add: handleGet_found [OF assms(1-6)])
  then show ?thesis
    using lease_not_echoed [OF assms(11), of m "getIdFromTypeAndParams m ty (search tu)"
        webhook res w] assms(7)
    by simp
qed

text \<open>
  The clock reads 1000 and then 1001, the requested lease is 864000 seconds: the record
  is stored with \<open>subscriptionStart = 1000\<close> and \<open>subscriptionEnd = 864001001\<close>, one
  millisecond more than the start plus the lease.
\<close>

theorem lease_end_without_echo_witness:
  "map_option (\<lambda>r. (subscriptionStart r, subscriptionEnd r))
     (getWebhookById
        (snd (snd (handleGet (sampleManager [] False) (Suc 0) confirmUrl res0 sampleWorld)))
        ''streams?user_id=42'')
   = Some (Some (Date 1000), Some (Date 864001001))
   \<and> leaseSeconds sampleWebhook = 864000"
proof -
  let ?ou = "sampleUrl confirmUrl [(''hub.mode'', ''subscribe''), (''hub.challenge'', ''abc'')]"
  have a: "searchParams_get ?ou ''hub.topic'' = Some sampleTopic"
    by (simp add: sample_resolution(1))
  have c: "getWebhookById sampleWorld
      (getIdFromTypeAndParams (sampleManager [] False) (Suc 0) (search sampleTopicUrl))
      = Some sampleWebhook"
    by (simp add: sample_resolution)
  have d: "id_w sampleWebhook
      = getIdFromTypeAndParams (sampleManager [] False) (Suc 0) (search sampleTopicUrl)"
    by (simp add: sample_resolution) (simp add: sampleWebhook_def)
  have e: "truthy (searchParams_get ?ou ''hub.mode'')"
    "searchParams_get ?ou ''hub.mode'' \<noteq> Some ''denied''"
    "searchParams_get ?ou ''hub.mode'' \<noteq> Some ''unsubscribe''"
    and f: "\<not> truthy (searchParams_get ?ou ''hub.lease_seconds'')"
    by (simp_all add: searchParams_get_def sampleUrl_def truthy_def)
  have g: "clock (sampleManager [] False) (clockReads sampleWorld) = 1000"
    "clock (sampleManager [] False) (Suc (clockReads sampleWorld)) = 1001"
    "leaseSeconds sampleWebhook = 864000"
    by (simp_all add: sampleManager_def sampleWorld_def emptyWorld_def sampleWebhook_def)
  show ?thesis
    using lease_end_without_echo [OF sample_urls(4) a sample_resolution(2,3) sample_urls(6) c d e f,
        of res0]
    by (simp add: g sample_resolution(4) newDate_def)
qed

section \<open>The signature gate\<close>

lemma split_str_nonempty: "split_str c s \<noteq> []"
  by (induction s) (auto split: list.splits)




text \<open>
  Once the body is decoded, the middleware sorts the requests in this order: not a POST,
  passed on; a POST without signature header, 400; a POST whose record is not in the
  store, 404; a POST whose record is found, passed on if the digest matches and 400 if not.
\<close>

lemma parseBody_fields:
  "parseBody m req0 = Inr req \<Longrightarrow>
     method_req req = method_req req0 \<and> header req = header req0 \<and> originalUrl req = originalUrl req0
     \<and> headers_host req = headers_host req0 \<and> rawBody req = rawBody req0"
  by (auto simp add: parseBody_def split: if_splits option.splits)

lemma middleware_throws:
  "parseBody m req0 = Inl e \<Longrightarrow> verificationMiddleware m req0 res w = (Thrown e, res, w)"
  by (simp add: verificationMiddleware_def)

lemma gate_not_post:
  "parseBody m req0 = Inr req \<Longrightarrow> method_req req0 \<noteq> ''POST'' \<Longrightarrow>
     verificationMiddleware m req0 res w = (Next req, res, w)"
  using parseBody_fields [of m req0 req] by (simp add: verificationMiddleware_def)

lemma gate_no_header:
  "parseBody m req0 = Inr req \<Longrightarrow> method_req req0 = ''POST'' \<Longrightarrow>
   \<not> truthy (header req0 ''X-Hub-Signature'') \<Longrightarrow> \<not> ended res \<Longrightarrow>
     fst (verificationMiddleware m req0 res w) = Responded
     \<and> status (fst (snd (verificationMiddleware m req0 res w))) = 400
     \<and> ended (fst (snd (verificationMiddleware m req0 res w)))"
  using parseBody_fields [of m req0 req]
  by (simp add: verificationMiddleware_def sendStatus_def end_res_def)

lemma gate_unknown_record:
  "parseBody m req0 = Inr req \<Longrightarrow> method_req req0 = ''POST'' \<Longrightarrow>
   truthy (header req0 ''X-Hub-Signature'') \<Longrightarrow>
   URL_new m (originalUrl req0)
     (Some (''https://'' @ (case headers_host req0 of None \<Rightarrow> ''undefined'' | Some h \<Rightarrow> h)))
     = Some callback_url \<Longrightarrow>
   getWebhookById w (lookupKey callback_url) = None \<Longrightarrow> \<not> ended res \<Longrightarrow>
     fst (verificationMiddleware m req0 res w) = Responded
     \<and> status (fst (snd (verificationMiddleware m req0 res w))) = 404
     \<and> ended (fst (snd (verificationMiddleware m req0 res w)))"
  using parseBody_fields [of m req0 req]
  by (simp add: verificationMiddleware_def sendStatus_def end_res_def)

lemma gate_known_record:
  "parseBody m req0 = Inr req \<Longrightarrow> method_req req0 = ''POST'' \<Longrightarrow>
   header req0 ''X-Hub-Signature'' = Some sig \<Longrightarrow> sig \<noteq> [] \<Longrightarrow>
   URL_new m (originalUrl req0)
     (Some (''https://'' @ (case headers_host req0 of None \<Rightarrow> ''undefined'' | Some h \<Rightarrow> h)))
     = Some callback_url \<Longrightarrow>
   getWebhookById w (lookupKey callback_url) = Some webhook \<Longrightarrow> \<not> ended res \<Longrightarrow>
     (if signatureMatches (createHmac_sha256_hex m (secret webhook) (rawBody req0)) sig
      then verificationMiddleware m req0 res w = (Next req, res, w)
      else fst (verificationMiddleware m req0 res w) = Responded
         \<and> status (fst (snd (verificationMiddleware m req0 res w))) = 400
         \<and> ended (fst (snd (verificationMiddleware m req0 res w))))"
  using parseBody_fields [of m req0 req]
  by (simp add: verificationMiddleware_def sendStatus_def end_res_def truthy_def)

text \<open>
  C5 does not hold of every request: a POST without \<^verbatim>\<open>X-Hub-Signature\<close> that announces
  JSON and carries a body that is not JSON is not answered 400, and a GET with such a
  body is not passed on. \<^verbatim>\<open>JSON.parse\<close> throws before the method is looked at, inside the
  callback given to \<^verbatim>\<open>concat\<close>: no status is sent, the response is not ended and \<^verbatim>\<open>next\<close>
  is not called.
\<close>

theorem gate_throws_on_bad_json:
  "verificationMiddleware (sampleManager [] False)
     (samplePost [(''content-type'', ''application/json'')] ''{'') res0 sampleWorld
   = (Thrown (SyntaxError ''Unexpected token in JSON''), res0, sampleWorld)
   \<and> verificationMiddleware (sampleManager [] False)
     ((samplePost [(''content-type'', ''application/json'')] ''{'')\<lparr>method_req := ''GET''\<rparr>)
     res0 sampleWorld
   = (Thrown (SyntaxError ''Unexpected token in JSON''), res0, sampleWorld)"
  by (simp add: verificationMiddleware_def parseBody_def samplePost_def sampleManager_def
      truthy_def)





section \<open>Bulk unsubscription waits for the events\<close>

text \<open>
  The promise of \<open>unsubFromAll\<close> settles exactly when at least one \<^verbatim>\<open>'unsubscribed'\<close> event
  is emitted and every listed id is among the events emitted: it is resolved only inside
  the listener.
\<close>

lemma resolved_iff: "resolved ids evs \<longleftrightarrow> evs \<noteq> [] \<and> set ids \<subseteq> set evs"
proof (induction evs arbitrary: ids)
  case Nil
  show ?case by simp
next
  case (Cons i evs)
  show ?case
  proof (cases "filter (\<lambda>x. x \<noteq> i) ids = []")
    case True
    then have "set ids \<subseteq> {i}"
      by (auto simp add: filter_empty_conv)
    with True show ?thesis by auto
  next
    case False
    then obtain x where x: "x \<in> set ids" "x \<noteq> i"
      by (auto simp add: filter_empty_conv)
    have "resolved ids (i # evs) = resolved (filter (\<lambda>x. x \<noteq> i) ids) evs"
      using False by (simp add: Let_def)
    also have "\<dots> \<longleftrightarrow> evs \<noteq> [] \<and> set (filter (\<lambda>x. x \<noteq> i) ids) \<subseteq> set evs"
      by (rule Cons.IH)
    also have "\<dots> \<longleftrightarrow> set ids \<subseteq> set (i # evs)"
      using x by auto
    finally show ?thesis by simp
  qed
qed

lemma unsubFromAll_completes_iff:
  "unsubFromAll m evs w \<noteq> None \<longleftrightarrow> evs \<noteq> [] \<and> id_w ` set (getAllWebhooks w) \<subseteq> set evs"
  by (simp add: unsubFromAll_def Let_def resolved_iff)

lemma unsubFromAll_no_event: "unsubFromAll m [] w = None"
  by (simp add: unsubFromAll_def Let_def)

text \<open>
  C9 does not hold of the empty store: nothing is listed, no request is sent, so no
  \<^verbatim>\<open>'unsubscribed'\<close> event follows, and the promise never settles.
\<close>

theorem unsubFromAll_empty_store_hangs:
  "getAllWebhooks emptyWorld = []
   \<and> unsubFromAll (sampleManager [] False) [] emptyWorld = None"
  by (simp add: unsubFromAll_def getAllWebhooks_def emptyWorld_def)

lemma unsubOne_logs_failure:
  "fst (unsubscribePersistenceObject m webhook w) = Inl e \<Longrightarrow>
   unsubOne m webhook w
     = add_effect (LogError (''Error while unsubscribing from: '' @ id_w webhook))
         (snd (unsubscribePersistenceObject m webhook w))"
  by (auto simp add: unsubOne_def split: prod.splits sum.splits)

end
